theory Spec2Isabelle
  imports Complex_Main "HOL-Library.AList"
begin

section \<open>Errors\<close>

text \<open>
  The exception classes that \<^verbatim>\<open>prefetch_ocsp.py\<close> raises or catches.
  \<^verbatim>\<open>OCSPCertificateError\<close> is declared in the file as a subclass of
  \<^verbatim>\<open>errors.PluginError\<close>. \<^verbatim>\<open>OSError\<close> stands for Python 3's
  \<^verbatim>\<open>OSError\<close>, of which \<^verbatim>\<open>IOError\<close> is an alias.
\<close>

datatype exc_class =
    OCSPCertificateError
  | PluginError
  | MisconfigurationError
  | NotSupportedError
  | OSError
  | KeyError

text \<open>
  The text of an exception: a fixed message, a message formatted with a datetime
  (microseconds since the epoch), or a message formatted with the text of another error.
\<close>

datatype detail =
    Text string
  | TextTime string int
  | TextErr string detail

datatype exc = Exc exc_class detail

fun exc_cls :: "exc \<Rightarrow> exc_class" where
  "exc_cls (Exc c d) = c"

fun exc_str :: "exc \<Rightarrow> detail" where
  "exc_str (Exc c d) = d"

text \<open>
  Modelled from the spec: the class hierarchy of \<^verbatim>\<open>certbot.errors\<close>, which is not part
  of the file. What \<^verbatim>\<open>except errors.PluginError\<close> catches: the class itself, the
  eviction class declared at the end of the file, and the configuration error kinds that the
  enable flow is specified to roll back on.
\<close>

fun is_PluginError :: "exc_class \<Rightarrow> bool" where
  "is_PluginError OCSPCertificateError = True"
| "is_PluginError PluginError = True"
| "is_PluginError MisconfigurationError = True"
| "is_PluginError NotSupportedError = True"
| "is_PluginError OSError = False"
| "is_PluginError KeyError = False"

fun is_OCSPCertificateError :: "exc_class \<Rightarrow> bool" where
  "is_OCSPCertificateError OCSPCertificateError = True"
| "is_OCSPCertificateError c = False"

section \<open>Scheduling: is a refresh due\<close>

text \<open>
  \<^verbatim>\<open>_ocsp_refresh_needed(lastupdate)\<close>. The timestamps are the float seconds of
  \<^verbatim>\<open>time.time()\<close>, taken as exact reals; the constant
  \<^verbatim>\<open>constants.OCSP_INTERNAL_TTL\<close> is not part of the file and is a parameter.
\<close>

definition ocsp_refresh_needed :: "int \<Rightarrow> real \<Rightarrow> real \<Rightarrow> bool" where
  "ocsp_refresh_needed OCSP_INTERNAL_TTL time_time lastupdate =
     (let ttl = lastupdate + of_int OCSP_INTERNAL_TTL in
      if ttl < time_time then True else False)"

section \<open>TTL calculator\<close>

text \<open>
  \<^verbatim>\<open>int(td.total_seconds())\<close> for a timedelta of \<open>us\<close> microseconds: Python's
  \<^verbatim>\<open>int\<close> truncates towards zero.
\<close>

definition int_total_seconds :: "int \<Rightarrow> int" where
  "int_total_seconds us =
     (if 0 \<le> us then us div 1000000 else - ((- us) div 1000000))"

text \<open>
  \<^verbatim>\<open>_ocsp_ttl(next_update)\<close>. Datetimes are microseconds since the epoch;
  \<open>now\<close> is the value of \<^verbatim>\<open>datetime.utcnow()\<close> read inside the function.
\<close>

definition ocsp_ttl :: "int option \<Rightarrow> int \<Rightarrow> exc + int" where
  "ocsp_ttl next_update now =
     (let hour = 3600 in
      case next_update of
        Some nu \<Rightarrow>
          (let res_ttl = int_total_seconds (nu - now) in
           if res_ttl > 0 then
             (let safe_ttl = res_ttl - 30 * hour in
              if safe_ttl > hour then Inr safe_ttl
              else Inl (Exc PluginError (TextTime
                ''OCSP response nextUpdate timestamp too early: {}. Certbot cannot ensure a safe TTLfor OCSP staple prefeching.'' nu)))
           else Inl (Exc PluginError (TextTime
                ''OCSP response nextUpdate timestamp too early: {}'' nu)))
      | None \<Rightarrow> Inl (Exc PluginError (Text
          ''OCSP response nextUpdate not provided with response. Staple should not be prefetched.'')))"

text \<open>One hour and one second, in microseconds.\<close>

definition hour_us :: int where
  "hour_us = 3600 * 1000000"

definition second_us :: int where
  "second_us = 1000000"

definition minute_us :: int where
  "minute_us = 60 * 1000000"

section \<open>Paths\<close>

text \<open>\<^verbatim>\<open>os.path.join\<close> (POSIX) for two components, and its three-argument use.\<close>

definition path_join :: "string \<Rightarrow> string \<Rightarrow> string" where
  "path_join a b =
     (if b \<noteq> [] \<and> hd b = CHR ''/'' then b
      else if a = [] \<or> last a = CHR ''/'' then a @ b
      else a @ ''/'' @ b)"

definition path_join3 :: "string \<Rightarrow> string \<Rightarrow> string \<Rightarrow> string" where
  "path_join3 a b c = path_join (path_join a b) c"

text \<open>\<^verbatim>\<open>os.path.basename\<close>: what follows the last slash.\<close>

definition basename :: "string \<Rightarrow> string" where
  "basename p = rev (takeWhile (\<lambda>c. c \<noteq> CHR ''/'') (rev p))"

text \<open>
  \<^verbatim>\<open>os.path.dirname\<close>: what precedes the last slash, with its trailing slashes
  stripped unless it consists of slashes only.
\<close>

definition dirname :: "string \<Rightarrow> string" where
  "dirname p =
     (let hd_part = rev (dropWhile (\<lambda>c. c \<noteq> CHR ''/'') (rev p)) in
      if hd_part \<noteq> [] \<and> filter (\<lambda>c. c \<noteq> CHR ''/'') hd_part \<noteq> []
      then rev (dropWhile (\<lambda>c. c = CHR ''/'') (rev hd_part))
      else hd_part)"

text \<open>\<^verbatim>\<open>str.endswith\<close>.\<close>

definition endswith :: "string \<Rightarrow> string \<Rightarrow> bool" where
  "endswith s suf = (length suf \<le> length s \<and> drop (length s - length suf) s = suf)"

section \<open>Certificate identifiers\<close>

text \<open>
  Modelled from the spec: \<^verbatim>\<open>apache_util.certid_sha1\<close> and
  \<^verbatim>\<open>apache_util.certid_sha1_hex\<close> are not part of the file. The store key is the raw
  digest of the certificate's fingerprint and the scratch file name is the hex digest of the
  same hash. The hash itself is a parameter; a digest is a list of bytes, each taken modulo 256.
\<close>

definition hexdigit :: "nat \<Rightarrow> char" where
  "hexdigit n = ''0123456789abcdef'' ! (n mod 16)"

definition hexbyte :: "nat \<Rightarrow> string" where
  "hexbyte b = [hexdigit ((b mod 256) div 16), hexdigit (b mod 16)]"

definition hexdigest :: "nat list \<Rightarrow> string" where
  "hexdigest bs = concat (map hexbyte bs)"

section \<open>Files, logs and the tracked state\<close>

text \<open>
  Modelled from the spec: \<^verbatim>\<open>apache_util.get_apache_ocsp_struct\<close> is not part of the
  file. A store value is the expiry time in microseconds since the epoch, the delimiter byte and
  the raw response; it is kept here as the pair of the expiry and of what the response file held.
  A file holds raw bytes or a DBM database (keys are raw digests).
\<close>

datatype fdata =
    Raw string
  | Dbm "(nat list \<times> (int \<times> fdata)) list"

type_synonym staple = "int \<times> fdata"

datatype level = Debug | Warning

text \<open>A Prefetch Entry: the value stored per certificate path.\<close>

record entry =
  lastupdate :: real
  chain_path :: string

type_synonym prefetch = "(string \<times> entry) list"

datatype vhost = VHost string bool

fun ssl :: "vhost \<Rightarrow> bool" where
  "ssl (VHost n s) = s"

text \<open>
  What \<^verbatim>\<open>RevocationChecker.ocsp_revoked_by_paths\<close> did: the bytes it wrote to the
  response file, if it wrote any, and whether it raised or returned the revoked flag.
\<close>

datatype check_result = Check "string option" "exc + bool"

text \<open>
  The collaborators and constants that are not part of the file, as parameters: the work
  directory of the configuration, the constant \<^verbatim>\<open>OCSP_INTERNAL_TTL\<close>, which database
  modules the host has, the certificate hash, the OCSP checker, and the host object the mixin
  is combined into (\<^verbatim>\<open>choose_vhosts\<close>, \<^verbatim>\<open>_enable_ocsp_stapling\<close>,
  \<^verbatim>\<open>recovery_routine\<close>, \<^verbatim>\<open>save\<close> and the inherited \<^verbatim>\<open>restart\<close>), which
  acts on its own state \<open>'h\<close>; the inherited restart also acts on the files.
\<close>

record 'h env =
  work_dir :: string
  OCSP_INTERNAL_TTL :: int
  has_bsddb :: bool
  has_ndbm_berkeley :: bool
  certid :: "string \<Rightarrow> nat list"
  ocsp_revoked_by_paths :: "string \<Rightarrow> string \<Rightarrow> check_result"
  ocsp_times :: "fdata option \<Rightarrow> exc + int option"
  choose_vhosts :: "'h \<Rightarrow> string \<Rightarrow> vhost list"
  enable_ocsp_stapling :: "vhost \<Rightarrow> 'h \<Rightarrow> exc + 'h"
  recovery_routine :: "'h \<Rightarrow> 'h"
  host_save :: "'h \<Rightarrow> exc + 'h"
  super_restart :: "'h \<Rightarrow> (string \<Rightarrow> fdata option) \<Rightarrow> exc option \<times> 'h \<times> (string \<Rightarrow> fdata option)"

text \<open>
  The state the code reads and writes: the files and directories, the clock (microseconds
  since the epoch), the in-memory map \<^verbatim>\<open>self._ocsp_prefetch\<close> (a dict, in insertion
  order), the value under \<^verbatim>\<open>"ocsp_prefetch"\<close> in the plugin storage and what
  \<^verbatim>\<open>storage.save()\<close> last flushed, the log, and the host object's state.
\<close>

record 'h world =
  files :: "string \<Rightarrow> fdata option"
  dirs :: "string list"
  clock :: int
  ocsp_prefetch :: prefetch
  storage_data :: "prefetch option"
  storage_saved :: "prefetch option"
  logs :: "(level \<times> detail) list"
  host :: 'h

definition time_time :: "'h world \<Rightarrow> real" where
  "time_time w = real_of_int (clock w) / 1000000"

definition log :: "level \<Rightarrow> detail \<Rightarrow> 'h world \<Rightarrow> 'h world" where
  "log l d w = w\<lparr>logs := logs w @ [(l, d)]\<rparr>"

definition ocsp_store :: "'h env \<Rightarrow> string" where
  "ocsp_store e = path_join3 (work_dir e) ''ocsp'' ''ocsp_cache.db''"

definition ocsp_work :: "'h env \<Rightarrow> string" where
  "ocsp_work e = path_join3 (work_dir e) ''ocsp_work'' ''ocsp_cache.db''"

definition certid_sha1 :: "'h env \<Rightarrow> string \<Rightarrow> nat list" where
  "certid_sha1 e cert_path = map (\<lambda>b. b mod 256) (certid e cert_path)"

definition certid_sha1_hex :: "'h env \<Rightarrow> string \<Rightarrow> string" where
  "certid_sha1_hex e cert_path = hexdigest (certid e cert_path)"

section \<open>File operations\<close>

definition isfile :: "'h world \<Rightarrow> string \<Rightarrow> bool" where
  "isfile w p = (files w p \<noteq> None)"

definition isdir :: "'h world \<Rightarrow> string \<Rightarrow> bool" where
  "isdir w p = (p \<in> set (dirs w))"

text \<open>
  \<^verbatim>\<open>filesystem.makedirs\<close>: an \<^verbatim>\<open>OSError\<close> when the directory cannot be
  created; in this state that is when a regular file has the path.
\<close>

definition makedirs :: "'h world \<Rightarrow> string \<Rightarrow> exc + 'h world" where
  "makedirs w p =
     (if files w p \<noteq> None then Inl (Exc OSError (Text ''File exists''))
      else Inr (w\<lparr>dirs := dirs w @ [p]\<rparr>))"

text \<open>The loop of \<^verbatim>\<open>_ensure_ocsp_dirs\<close>; the first failure ends it.\<close>

fun ensure_dirs :: "'h world \<Rightarrow> string list \<Rightarrow> exc option \<times> 'h world" where
  "ensure_dirs w [] = (None, w)"
| "ensure_dirs w (path # paths) =
     (if \<not> isdir w path then
        (case makedirs w path of
           Inl err \<Rightarrow> (Some err, w)
         | Inr w1 \<Rightarrow> ensure_dirs w1 paths)
      else ensure_dirs w paths)"

text \<open>\<^verbatim>\<open>_ensure_ocsp_dirs\<close>: the work directory first, then the store directory.\<close>

definition ensure_ocsp_dirs :: "'h env \<Rightarrow> 'h world \<Rightarrow> exc option \<times> 'h world" where
  "ensure_ocsp_dirs e w = ensure_dirs w [dirname (ocsp_work e), dirname (ocsp_store e)]"

text \<open>
  Modelled from the spec: \<^verbatim>\<open>apache_util.safe_copy\<close> is not part of the file. It copies
  a file and, as the docstrings of its callers say, raises a \<^verbatim>\<open>PluginError\<close> when the
  file cannot be copied.
\<close>

definition safe_copy :: "'h world \<Rightarrow> string \<Rightarrow> string \<Rightarrow> exc + 'h world" where
  "safe_copy w source target =
     (case files w source of
        None \<Rightarrow> Inl (Exc PluginError (Text ''Unable to copy file''))
      | Some d \<Rightarrow> Inr (w\<lparr>files := (files w)(target \<mapsto> d)\<rparr>))"

text \<open>
  \<^verbatim>\<open>filesystem.replace\<close>: an atomic rename over the target; an \<^verbatim>\<open>OSError\<close> when
  the source does not exist.
\<close>

definition filesystem_replace :: "'h world \<Rightarrow> string \<Rightarrow> string \<Rightarrow> exc + 'h world" where
  "filesystem_replace w src dst =
     (case files w src of
        None \<Rightarrow> Inl (Exc OSError (Text ''No such file or directory''))
      | Some d \<Rightarrow> Inr (w\<lparr>files := ((files w)(src := None))(dst \<mapsto> d)\<rparr>))"

definition os_remove :: "'h world \<Rightarrow> string \<Rightarrow> exc + 'h world" where
  "os_remove w p =
     (case files w p of
        None \<Rightarrow> Inl (Exc OSError (Text ''No such file or directory''))
      | Some d \<Rightarrow> Inr (w\<lparr>files := (files w)(p := None)\<rparr>))"

section \<open>Key-value store adapter\<close>

text \<open>
  \<^verbatim>\<open>DBMHandler.__enter__\<close> with mode \<^verbatim>\<open>'w'\<close>: with \<^verbatim>\<open>bsddb\<close> the file is
  opened under its own name; otherwise \<^verbatim>\<open>dbm.ndbm\<close> is given the name without its
  \<^verbatim>\<open>.db\<close> suffix and appends the suffix itself. Every failure to open is a
  \<^verbatim>\<open>PluginError\<close>. The result is the name of the opened file and the database it holds.
\<close>

definition DBMHandler_enter ::
  "'h env \<Rightarrow> 'h world \<Rightarrow> string \<Rightarrow> exc + (string \<times> (nat list \<times> staple) list)" where
  "DBMHandler_enter e w filename =
     (if has_bsddb e then
        (case files w filename of
           Some (Dbm db) \<Rightarrow> Inr (filename, db)
         | _ \<Rightarrow> Inl (Exc PluginError (Text ''Unable to open dbm database file.'')))
      else
        (let fname = (if endswith filename ''.db''
                      then take (length filename - 3) filename else filename);
             opened = fname @ ''.db''
         in if has_ndbm_berkeley e then
              (case files w opened of
                 Some (Dbm db) \<Rightarrow> Inr (opened, db)
               | _ \<Rightarrow> Inl (Exc PluginError (Text ''Unable to open dbm database file.'')))
            else Inl (Exc PluginError (Text ''Unable to open dbm database file.''))))"

text \<open>
  \<^verbatim>\<open>_write_to_dbm(filename, key, value)\<close>: copy the file to a temporary file in the
  work directory, write the key there, rename the temporary file over the file.
\<close>

definition write_to_dbm ::
  "'h env \<Rightarrow> 'h world \<Rightarrow> string \<Rightarrow> nat list \<Rightarrow> staple \<Rightarrow> exc option \<times> 'h world" where
  "write_to_dbm e w filename key val =
     (let tmp_file = path_join (dirname (ocsp_work e)) (''tmp_'' @ basename filename) in
      case safe_copy w filename tmp_file of
        Inl err \<Rightarrow> (Some err, w)
      | Inr w1 \<Rightarrow>
          (case DBMHandler_enter e w1 tmp_file of
             Inl err \<Rightarrow> (Some err, w1)
           | Inr (opened, db) \<Rightarrow>
               (let w2 = w1\<lparr>files := (files w1)(opened \<mapsto> Dbm (AList.update key val db))\<rparr> in
                case filesystem_replace w2 tmp_file filename of
                  Inl err \<Rightarrow> (Some err, w2)
                | Inr w3 \<Rightarrow> (None, w3))))"

section \<open>Response packager\<close>

text \<open>
  Modelled from the spec: \<^verbatim>\<open>apache_util.get_apache_ocsp_struct(ttl, response)\<close>: the
  expiry is the current time plus the TTL, in microseconds.
\<close>

definition get_apache_ocsp_struct :: "'h world \<Rightarrow> int \<Rightarrow> fdata \<Rightarrow> staple" where
  "get_apache_ocsp_struct w ttl response = (clock w + ttl * 1000000, response)"

text \<open>
  \<^verbatim>\<open>_ocsp_response_dbm(workfile)\<close>: read the times of the response, compute the TTL,
  read the file (an \<^verbatim>\<open>OSError\<close> if it does not exist) and package it.
\<close>

definition ocsp_response_dbm :: "'h env \<Rightarrow> 'h world \<Rightarrow> string \<Rightarrow> exc + staple" where
  "ocsp_response_dbm e w workfile =
     (case ocsp_times e (files w workfile) of
        Inl err \<Rightarrow> Inl err
      | Inr next_update \<Rightarrow>
          (case ocsp_ttl next_update (clock w) of
             Inl err \<Rightarrow> Inl err
           | Inr ttl \<Rightarrow>
               (case files w workfile of
                  None \<Rightarrow> Inl (Exc OSError (Text ''No such file or directory''))
                | Some response \<Rightarrow> Inr (get_apache_ocsp_struct w ttl response))))"

section \<open>Refresh engine\<close>

text \<open>The \<^verbatim>\<open>try\<close> block of \<^verbatim>\<open>_ocsp_refresh\<close>.\<close>

definition ocsp_refresh_try ::
  "'h env \<Rightarrow> 'h world \<Rightarrow> string \<Rightarrow> string \<Rightarrow> string \<Rightarrow> exc option \<times> 'h world" where
  "ocsp_refresh_try e w cert_path chainp ocsp_workfile =
     (case ocsp_revoked_by_paths e cert_path chainp of
        Check written outcome \<Rightarrow>
          (let w1 = (case written of
                       None \<Rightarrow> w
                     | Some bytes \<Rightarrow> w\<lparr>files := (files w)(ocsp_workfile \<mapsto> Raw bytes)\<rparr>)
           in case outcome of
                Inl err \<Rightarrow> (Some err, w1)
              | Inr revoked \<Rightarrow>
                  if revoked then
                    (Some (Exc OCSPCertificateError (Text ''Certificate has been revoked.'')),
                     log Warning (Text (''Encountered an issue while trying to prefetch OCSP response for certificate: '' @ cert_path)) w1)
                  else
                    (let cert_sha = certid_sha1 e cert_path in
                     case ocsp_response_dbm e w1 ocsp_workfile of
                       Inl err \<Rightarrow> (Some err, w1)
                     | Inr val \<Rightarrow> write_to_dbm e w1 (ocsp_store e) cert_sha val)))"

text \<open>
  \<^verbatim>\<open>_ocsp_refresh(cert_path, chain_path)\<close>; the \<^verbatim>\<open>finally\<close> block removes the
  scratch file and ignores the \<^verbatim>\<open>OSError\<close> of its absence.
\<close>

definition ocsp_refresh ::
  "'h env \<Rightarrow> 'h world \<Rightarrow> string \<Rightarrow> string \<Rightarrow> exc option \<times> 'h world" where
  "ocsp_refresh e w cert_path chainp =
     (case ensure_ocsp_dirs e w of
        (Some err, w1) \<Rightarrow> (Some err, w1)
      | (None, w1) \<Rightarrow>
          if \<not> isfile w1 cert_path then
            (Some (Exc OCSPCertificateError (Text ''Certificate has been removed from the system.'')), w1)
          else
            (let ocsp_workfile = path_join (dirname (ocsp_work e)) (certid_sha1_hex e cert_path) in
             case ocsp_refresh_try e w1 cert_path chainp ocsp_workfile of
               (r, w2) \<Rightarrow>
                 (case os_remove w2 ocsp_workfile of
                    Inl err \<Rightarrow> (r, w2)
                  | Inr w3 \<Rightarrow> (r, w3))))"

section \<open>Prefetch state store\<close>

text \<open>
  The plugin storage collaborator: \<^verbatim>\<open>put\<close> sets the value held in memory,
  \<^verbatim>\<open>save\<close> flushes it, \<^verbatim>\<open>fetch\<close> raises \<^verbatim>\<open>KeyError\<close> when there is no value.
\<close>

definition storage_put :: "prefetch \<Rightarrow> 'h world \<Rightarrow> 'h world" where
  "storage_put v w = w\<lparr>storage_data := Some v\<rparr>"

definition storage_save :: "'h world \<Rightarrow> 'h world" where
  "storage_save w = w\<lparr>storage_saved := storage_data w\<rparr>"

definition storage_fetch :: "'h world \<Rightarrow> exc + prefetch" where
  "storage_fetch w =
     (case storage_data w of
        None \<Rightarrow> Inl (Exc KeyError (Text ''ocsp_prefetch''))
      | Some v \<Rightarrow> Inr v)"

text \<open>\<^verbatim>\<open>_ocsp_prefetch_save(cert_path, chain_path)\<close>.\<close>

definition ocsp_prefetch_save :: "'h world \<Rightarrow> string \<Rightarrow> string \<Rightarrow> 'h world" where
  "ocsp_prefetch_save w cert_path chainp =
     (let status = \<lparr>lastupdate = time_time w, chain_path = chainp\<rparr>;
          w1 = w\<lparr>ocsp_prefetch := AList.update cert_path status (ocsp_prefetch w)\<rparr>;
          w2 = storage_put (ocsp_prefetch w1) w1
      in storage_save w2)"

text \<open>
  \<^verbatim>\<open>_ocsp_prefetch_remove(cert_path)\<close>; \<^verbatim>\<open>dict.pop\<close> raises \<^verbatim>\<open>KeyError\<close> for
  a key that is not there.
\<close>

definition ocsp_prefetch_remove :: "'h world \<Rightarrow> string \<Rightarrow> exc + 'h world" where
  "ocsp_prefetch_remove w cert_path =
     (case map_of (ocsp_prefetch w) cert_path of
        None \<Rightarrow> Inl (Exc KeyError (Text cert_path))
      | Some v \<Rightarrow>
          (let w1 = w\<lparr>ocsp_prefetch := AList.delete cert_path (ocsp_prefetch w)\<rparr>
           in Inr (storage_put (ocsp_prefetch w1) w1)))"

text \<open>\<^verbatim>\<open>_ocsp_prefetch_fetch_state\<close>.\<close>

definition ocsp_prefetch_fetch_state :: "'h world \<Rightarrow> 'h world" where
  "ocsp_prefetch_fetch_state w =
     (case storage_fetch w of
        Inr v \<Rightarrow> w\<lparr>ocsp_prefetch := v\<rparr>
      | Inl err \<Rightarrow> w\<lparr>ocsp_prefetch := []\<rparr>)"

section \<open>Restart guard\<close>

text \<open>
  \<^verbatim>\<open>_ocsp_prefetch_backup_db\<close>: a \<^verbatim>\<open>PluginError\<close> of the copy is logged, any
  other exception propagates.
\<close>

definition ocsp_prefetch_backup_db :: "'h env \<Rightarrow> 'h world \<Rightarrow> exc option \<times> 'h world" where
  "ocsp_prefetch_backup_db e w =
     (case ensure_ocsp_dirs e w of
        (Some err, w1) \<Rightarrow> (Some err, w1)
      | (None, w1) \<Rightarrow>
          (case safe_copy w1 (ocsp_store e) (ocsp_work e) of
             Inr w2 \<Rightarrow> (None, w2)
           | Inl err \<Rightarrow>
               if is_PluginError (exc_cls err)
               then (None, log Debug (Text ''Encountered an issue while trying to backup OCSP dbm file'') w1)
               else (Some err, w1)))"

text \<open>
  \<^verbatim>\<open>_ocsp_prefetch_restore_db\<close>: an \<^verbatim>\<open>IOError\<close> of the rename is logged, any
  other exception propagates.
\<close>

definition ocsp_prefetch_restore_db :: "'h env \<Rightarrow> 'h world \<Rightarrow> exc option \<times> 'h world" where
  "ocsp_prefetch_restore_db e w =
     (case ensure_ocsp_dirs e w of
        (Some err, w1) \<Rightarrow> (Some err, w1)
      | (None, w1) \<Rightarrow>
          (case filesystem_replace w1 (ocsp_work e) (ocsp_store e) of
             Inr w2 \<Rightarrow> (None, w2)
           | Inl err \<Rightarrow>
               if exc_cls err = OSError
               then (None, log Debug (Text ''Encountered an issue when trying to restore OCSP dbm file'') w1)
               else (Some err, w1)))"

text \<open>The inherited restart, run on the host state and the files of a world.\<close>

definition run_super_restart :: "'h env \<Rightarrow> 'h world \<Rightarrow> exc option \<times> 'h world" where
  "run_super_restart e w =
     (case super_restart e (host w) (files w) of
        (r, h, fs) \<Rightarrow> (r, w\<lparr>files := fs, host := h\<rparr>))"

text \<open>
  \<^verbatim>\<open>restart\<close>: an exception of the \<^verbatim>\<open>finally\<close> block replaces the one of the
  inherited restart.
\<close>

definition restart :: "'h env \<Rightarrow> 'h world \<Rightarrow> exc option \<times> 'h world" where
  "restart e w =
     (let w1 = (if ocsp_prefetch w = [] then ocsp_prefetch_fetch_state w else w) in
      case (if ocsp_prefetch w1 \<noteq> [] then ocsp_prefetch_backup_db e w1 else (None, w1)) of
        (Some err, w2) \<Rightarrow> (Some err, w2)
      | (None, w2) \<Rightarrow>
          (case run_super_restart e w2 of
             (r, w3) \<Rightarrow>
               (case (if ocsp_prefetch w3 \<noteq> [] then ocsp_prefetch_restore_db e w3
                      else (None, w3)) of
                  (Some err, w4) \<Rightarrow> (Some err, w4)
                | (None, w4) \<Rightarrow> (r, w4))))"

section \<open>Scheduler\<close>

text \<open>\<^verbatim>\<open>_ocsp_try_refresh(cert_path, chain_path)\<close>.\<close>

definition ocsp_try_refresh ::
  "'h env \<Rightarrow> 'h world \<Rightarrow> string \<Rightarrow> string \<Rightarrow> exc option \<times> 'h world" where
  "ocsp_try_refresh e w cert_path chainp =
     (case ocsp_refresh e w cert_path chainp of
        (None, w1) \<Rightarrow> (None, w1)
      | (Some err, w1) \<Rightarrow>
          if is_OCSPCertificateError (exc_cls err) then
            (case ocsp_prefetch_remove w1 cert_path of
               Inl kerr \<Rightarrow> (Some kerr, w1)
             | Inr w2 \<Rightarrow>
                 (Some err,
                  log Warning (TextErr ''Error when trying to prefetch OCSP staple: {} OCSP prefetch functionality removed for the certificate'' (exc_str err)) w2))
          else if is_PluginError (exc_cls err) then
            (None,
             log Warning (TextErr ''Encountered a issue when trying to renew OCSP staple: {}'' (exc_str err)) w1)
          else (Some err, w1))"

text \<open>
  The loop of \<^verbatim>\<open>update_ocsp_prefetch\<close> over the copied list of keys. Indexing the dict
  with a key that is not there raises \<^verbatim>\<open>KeyError\<close>.
\<close>

fun update_loop :: "'h env \<Rightarrow> 'h world \<Rightarrow> string list \<Rightarrow> exc option \<times> 'h world" where
  "update_loop e w [] = (None, w)"
| "update_loop e w (cert_path # rest) =
     (case map_of (ocsp_prefetch w) cert_path of
        None \<Rightarrow> (Some (Exc KeyError (Text cert_path)), w)
      | Some pf \<Rightarrow>
          if ocsp_refresh_needed (OCSP_INTERNAL_TTL e) (time_time w) (lastupdate pf) then
            (let chainp = chain_path pf in
             case ocsp_try_refresh e w cert_path chainp of
               (Some err, w1) \<Rightarrow>
                 if is_OCSPCertificateError (exc_cls err) then update_loop e w1 rest
                 else (Some err, w1)
             | (None, w1) \<Rightarrow> update_loop e (ocsp_prefetch_save w1 cert_path chainp) rest)
          else update_loop e w rest)"

text \<open>\<^verbatim>\<open>update_ocsp_prefetch\<close>.\<close>

definition update_ocsp_prefetch :: "'h env \<Rightarrow> 'h world \<Rightarrow> exc option \<times> 'h world" where
  "update_ocsp_prefetch e w =
     (let w1 = ocsp_prefetch_fetch_state w in
      if ocsp_prefetch w1 = [] then (None, w1)
      else update_loop e w1 (map fst (ocsp_prefetch w1)))"

text \<open>\<^verbatim>\<open>deploy_ocsp_prefetch(lineage)\<close>, the lineage given by its two paths.\<close>

definition deploy_ocsp_prefetch ::
  "'h env \<Rightarrow> 'h world \<Rightarrow> string \<Rightarrow> string \<Rightarrow> exc option \<times> 'h world" where
  "deploy_ocsp_prefetch e w cert_path chainp =
     (let w1 = ocsp_prefetch_fetch_state w in
      if ocsp_prefetch w1 = [] then (None, w1)
      else if map_of (ocsp_prefetch w1) cert_path \<noteq> None then
        (case ocsp_try_refresh e w1 cert_path chainp of
           (Some err, w2) \<Rightarrow>
             if is_OCSPCertificateError (exc_cls err) then (None, w2) else (Some err, w2)
         | (None, w2) \<Rightarrow> (None, ocsp_prefetch_save w2 cert_path chainp))
      else (None, w1))"

section \<open>Enabling prefetch\<close>

text \<open>\<^verbatim>\<open>_ensure_ocsp_prefetch_compatibility\<close>.\<close>

definition ensure_ocsp_prefetch_compatibility :: "'h env \<Rightarrow> exc option" where
  "ensure_ocsp_prefetch_compatibility e =
     (if has_bsddb e then None
      else if \<not> has_ndbm_berkeley e then
        Some (Exc NotSupportedError (Text ''Unfortunately your operating system does not have a compatible database module available for managing Apache OCSP stapling cache database.''))
      else None)"

text \<open>
  The set \<^verbatim>\<open>prefetch_vhosts\<close>: the secure virtual hosts matched by some domain. A
  Python set has no specified iteration order; the order of \<open>remdups\<close> is taken.
\<close>

definition prefetch_vhosts_of :: "'h env \<Rightarrow> 'h \<Rightarrow> string list \<Rightarrow> vhost list" where
  "prefetch_vhosts_of e h domains =
     remdups (concat (map (\<lambda>domain. filter ssl (choose_vhosts e h domain)) domains))"

text \<open>The loop applying \<^verbatim>\<open>_enable_ocsp_stapling\<close> to each virtual host.\<close>

fun enable_vhosts :: "'h env \<Rightarrow> 'h \<Rightarrow> vhost list \<Rightarrow> exc option \<times> 'h" where
  "enable_vhosts e h [] = (None, h)"
| "enable_vhosts e h (vh # vhs) =
     (case enable_ocsp_stapling e vh h of
        Inl err \<Rightarrow> (Some err, h)
      | Inr h1 \<Rightarrow> enable_vhosts e h1 vhs)"

definition time_sleep :: "int \<Rightarrow> 'h world \<Rightarrow> 'h world" where
  "time_sleep secs w = w\<lparr>clock := clock w + secs * 1000000\<rparr>"

text \<open>The \<^verbatim>\<open>try\<close> block of \<^verbatim>\<open>enable_ocsp_prefetch\<close>.\<close>

definition enable_try ::
  "'h env \<Rightarrow> 'h world \<Rightarrow> vhost list \<Rightarrow> string \<Rightarrow> string \<Rightarrow> exc option \<times> 'h world" where
  "enable_try e w vhs cert_path chainp =
     (case enable_vhosts e (host w) vhs of
        (Some err, h) \<Rightarrow> (Some err, w\<lparr>host := h\<rparr>)
      | (None, h) \<Rightarrow>
          (case ensure_ocsp_dirs e (w\<lparr>host := h\<rparr>) of
             (Some err, w1) \<Rightarrow> (Some err, w1)
           | (None, w1) \<Rightarrow>
               (case restart e w1 of
                  (Some err, w2) \<Rightarrow> (Some err, w2)
                | (None, w2) \<Rightarrow>
                    (let w3 = time_sleep 2 w2 in
                     case ocsp_refresh e w3 cert_path chainp of
                       (Some err, w4) \<Rightarrow> (Some err, w4)
                     | (None, w4) \<Rightarrow>
                         (let w5 = ocsp_prefetch_save w4 cert_path chainp in
                          case host_save e (host w5) of
                            Inl err \<Rightarrow> (Some err, w5)
                          | Inr h1 \<Rightarrow> (None, w5\<lparr>host := h1\<rparr>))))))"

text \<open>
  The \<^verbatim>\<open>except errors.PluginError\<close> handler of \<^verbatim>\<open>enable_ocsp_prefetch\<close>:
  recovery routine, restart, then the wrapped error; an exception of that restart propagates
  in its place.
\<close>

definition enable_rollback :: "'h env \<Rightarrow> 'h world \<Rightarrow> exc \<Rightarrow> exc option \<times> 'h world" where
  "enable_rollback e w err =
     (let w1 = w\<lparr>host := recovery_routine e (host w)\<rparr> in
      case restart e w1 of
        (Some rerr, w2) \<Rightarrow> (Some rerr, w2)
      | (None, w2) \<Rightarrow>
          (Some (Exc PluginError (TextErr
             ''Encountered an error while trying to enable OCSP prefetch enhancement: %s\<newline>OCSP prefetch was not enabled.''
             (exc_str err))), w2))"

text \<open>\<^verbatim>\<open>enable_ocsp_prefetch(lineage, domains)\<close>, the lineage given by its two paths.\<close>

definition enable_ocsp_prefetch ::
  "'h env \<Rightarrow> 'h world \<Rightarrow> string \<Rightarrow> string \<Rightarrow> string list \<Rightarrow> exc option \<times> 'h world" where
  "enable_ocsp_prefetch e w cert_path chainp domains =
     (case ensure_ocsp_prefetch_compatibility e of
        Some err \<Rightarrow> (Some err, w)
      | None \<Rightarrow>
          (let prefetch_vhosts = prefetch_vhosts_of e (host w) domains in
           if prefetch_vhosts = [] then
             (Some (Exc MisconfigurationError
                (Text ''Could not find VirtualHost to enable OCSP prefetching on.'')), w)
           else
             (case enable_try e w prefetch_vhosts cert_path chainp of
                (None, w1) \<Rightarrow> (None, w1)
              | (Some err, w1) \<Rightarrow>
                  if is_PluginError (exc_cls err) then enable_rollback e w1 err
                  else (Some err, w1))))"

section \<open>Auxiliary definitions for the proofs\<close>

text \<open>The work directory as a prefix: with a slash appended unless it is empty or ends in one.\<close>

definition wd_prefix :: "string \<Rightarrow> string" where
  "wd_prefix a = (if a = [] \<or> last a = CHR ''/'' then a else a @ ''/'')"

section \<open>A concrete installation\<close>

text \<open>
  An installation used to run the definitions on concrete inputs: work directory
  \<^verbatim>\<open>/w\<close>, the five-day constant, \<^verbatim>\<open>bsddb\<close> present, a checker that reports
  \<^verbatim>\<open>/revoked.pem\<close> revoked, fails to fetch for \<^verbatim>\<open>/transient.pem\<close> and returns a
  good response otherwise, responses whose nextUpdate is 48 hours after the epoch, and an
  inherited restart that deletes the active store file, as the server does.
\<close>

definition ex_env :: "unit env" where
  "ex_env =
     \<lparr>work_dir = ''/w'', OCSP_INTERNAL_TTL = 432000, has_bsddb = True,
      has_ndbm_berkeley = False,
      certid = (\<lambda>p. [length p]),
      ocsp_revoked_by_paths =
        (\<lambda>c ch. if c = ''/revoked.pem'' then Check (Some ''r'') (Inr True)
                 else if c = ''/transient.pem''
                 then Check None (Inl (Exc PluginError (Text ''OCSP fetch failed'')))
                 else Check (Some ''good'') (Inr False)),
      ocsp_times = (\<lambda>f. Inr (Some 172800000000)),
      choose_vhosts = (\<lambda>h d. [VHost d True]),
      enable_ocsp_stapling = (\<lambda>vh h. Inr h),
      recovery_routine = (\<lambda>h. h),
      host_save = (\<lambda>h. Inr h),
      super_restart = (\<lambda>h fs. (None, h, fs(''/w/ocsp/ocsp_cache.db'' := None)))\<rparr>"

text \<open>The three certificates on disk, an empty store, the clock at the epoch, nothing tracked.\<close>

definition ex_world :: "unit world" where
  "ex_world =
     \<lparr>files = [''/w/ocsp/ocsp_cache.db'' \<mapsto> Dbm [],
               ''/good.pem'' \<mapsto> Raw ''A'',
               ''/revoked.pem'' \<mapsto> Raw ''B'',
               ''/transient.pem'' \<mapsto> Raw ''C''],
      dirs = [], clock = 0, ocsp_prefetch = [], storage_data = None, storage_saved = None,
      logs = [], host = ()\<rparr>"

text \<open>Three entries, each last updated 500000 seconds before the epoch.\<close>

definition ex_old :: "entry" where
  "ex_old = \<lparr>lastupdate = - 500000, chain_path = ''/chain.pem''\<rparr>"

definition ex_tracked :: prefetch where
  "ex_tracked = [(''/good.pem'', ex_old), (''/revoked.pem'', ex_old), (''/transient.pem'', ex_old)]"

definition ex_world_tracked :: "unit world" where
  "ex_world_tracked =
     ex_world\<lparr>ocsp_prefetch := ex_tracked, storage_data := Some ex_tracked,
              storage_saved := Some ex_tracked\<rparr>"

section \<open>What the collaborators may raise\<close>

text \<open>
  \<^verbatim>\<open>OCSPCertificateError\<close> is declared in \<^verbatim>\<open>prefetch_ocsp.py\<close> itself, so the
  OCSP checker, which does not know the class, raises no error of it: neither from
  \<^verbatim>\<open>ocsp_revoked_by_paths\<close> for the given paths nor from \<^verbatim>\<open>ocsp_times\<close>.
\<close>

definition checker_raises_no_eviction :: "'h env \<Rightarrow> string \<Rightarrow> string \<Rightarrow> bool" where
  "checker_raises_no_eviction e cert_path chainp =
     ((\<forall>written err. ocsp_revoked_by_paths e cert_path chainp = Check written (Inl err)
          \<longrightarrow> \<not> is_OCSPCertificateError (exc_cls err)) \<and>
      (\<forall>f err. ocsp_times e f = Inl err \<longrightarrow> \<not> is_OCSPCertificateError (exc_cls err)))"

text \<open>Whether the checker reported the certificate revoked.\<close>

definition reported_revoked :: "'h env \<Rightarrow> string \<Rightarrow> string \<Rightarrow> bool" where
  "reported_revoked e cert_path chainp =
     (case ocsp_revoked_by_paths e cert_path chainp of
        Check written (Inr revoked) \<Rightarrow> revoked
      | Check written (Inl err) \<Rightarrow> False)"

section \<open>Auxiliary predicates on refreshes\<close>

text \<open>Two worlds that differ at most in their files, directories and log.\<close>

definition same_but_files :: "'h world \<Rightarrow> 'h world \<Rightarrow> bool" where
  "same_but_files w w' =
     (clock w' = clock w \<and> ocsp_prefetch w' = ocsp_prefetch w \<and>
      storage_data w' = storage_data w \<and> storage_saved w' = storage_saved w \<and>
      host w' = host w)"

section \<open>Further concrete states\<close>

text \<open>The installation with a regular file where the work directory should be.\<close>

definition ex_world_blocked :: "unit world" where
  "ex_world_blocked = ex_world\<lparr>files := (files ex_world)(''/w/ocsp_work'' \<mapsto> Raw ''x'')\<rparr>"

definition ex_world_tracked_blocked :: "unit world" where
  "ex_world_tracked_blocked =
     ex_world_tracked\<lparr>files := (files ex_world_tracked)(''/w/ocsp_work'' \<mapsto> Raw ''x'')\<rparr>"

text \<open>
  The installation with a checker that reports every certificate not revoked and writes no
  response file, as a stub of the checker does.
\<close>

definition ex_env_silent :: "unit env" where
  "ex_env_silent = ex_env\<lparr>ocsp_revoked_by_paths := (\<lambda>c ch. Check None (Inr False))\<rparr>"

text \<open>
  An entry last updated at the epoch, and a tracked set in which only the certificate whose
  fetch fails is due.
\<close>

definition ex_fresh :: "entry" where
  "ex_fresh = \<lparr>lastupdate = 0, chain_path = ''/chain.pem''\<rparr>"

definition ex_one_due :: prefetch where
  "ex_one_due = [(''/good.pem'', ex_fresh), (''/transient.pem'', ex_old), (''/revoked.pem'', ex_fresh)]"

definition ex_world_one_due :: "unit world" where
  "ex_world_one_due =
     ex_world\<lparr>ocsp_prefetch := [], storage_data := Some ex_one_due,
              storage_saved := Some ex_one_due\<rparr>"

section \<open>The scheduler test\<close>

text \<open>
  C6 (counterexample). The claim makes an entry due when its age is at least the constant.
  With the constant at five days, an entry whose age is exactly five days has an age that is
  at least the constant, and \<^verbatim>\<open>_ocsp_refresh_needed\<close> returns \<^verbatim>\<open>False\<close> for it.
\<close>

theorem ocsp_refresh_needed_at_ttl_not_due:
  "(432000::real) - 0 \<ge> of_int 432000 \<and> \<not> ocsp_refresh_needed 432000 432000 0"
  by (simp add: ocsp_refresh_needed_def Let_def)

text \<open>
  C6 (amended). A refresh is due exactly when the age of the entry, now minus the last
  update, is strictly greater than the internal TTL constant.
\<close>

theorem ocsp_refresh_needed_strict:
  "ocsp_refresh_needed T now lu \<longleftrightarrow> now - lu > of_int T"
  by (auto simp: ocsp_refresh_needed_def Let_def)

section \<open>The TTL calculator\<close>

text \<open>
  C7 (counterexample). With the clock at 0 and nextUpdate exactly 30 hours and 1 minute
  later, the calculation does not succeed: the result is an error.
\<close>

theorem ocsp_ttl_30h1m_not_60:
  "isl (ocsp_ttl (Some (0 + 30 * hour_us + minute_us)) 0)"
  by (simp add: ocsp_ttl_def Let_def int_total_seconds_def hour_us_def minute_us_def)

text \<open>
  C7 (amended). For a nextUpdate exactly 30 hours and 1 minute in the future, whatever the
  current time, the TTL calculation fails with the plugin error that says the timestamp is
  too early for a safe TTL: the 60 seconds left after the 30-hour margin are not more than
  an hour.
\<close>

theorem ocsp_ttl_30h1m_fails:
  "ocsp_ttl (Some (now + 30 * hour_us + minute_us)) now =
     Inl (Exc PluginError (TextTime
       ''OCSP response nextUpdate timestamp too early: {}. Certbot cannot ensure a safe TTLfor OCSP staple prefeching.''
       (now + 30 * hour_us + minute_us)))"
  by (simp add: ocsp_ttl_def Let_def int_total_seconds_def hour_us_def minute_us_def)

text \<open>
  C3 (counterexample). With the clock at 0, a nextUpdate 31 hours and half a second later is
  more than 31 hours in the future, and the calculation fails: the difference is truncated to
  whole seconds before the margin is taken.
\<close>

theorem ocsp_ttl_just_over_31h_fails:
  "(111600500000::int) - 0 > 31 * hour_us \<and> isl (ocsp_ttl (Some 111600500000) 0)"
  by (simp add: ocsp_ttl_def Let_def int_total_seconds_def hour_us_def)

text \<open>
  C3 (amended). The calculation fails when nextUpdate is absent and when nextUpdate is less
  than 31 hours and one second after now (which covers a nextUpdate in the past, a
  non-positive difference, and a difference that leaves at most one hour after the 30-hour
  margin); when nextUpdate is at least 31 hours and one second after now, it returns the
  difference in whole seconds, rounded down, minus 30 hours.
\<close>

theorem ocsp_ttl_policy:
  "isl (ocsp_ttl None now) \<and>
   (nu - now < 31 * hour_us + second_us \<longrightarrow> isl (ocsp_ttl (Some nu) now)) \<and>
   (31 * hour_us + second_us \<le> nu - now \<longrightarrow>
      ocsp_ttl (Some nu) now = Inr ((nu - now) div 1000000 - 30 * 3600))"
  by (auto simp: ocsp_ttl_def Let_def int_total_seconds_def hour_us_def second_us_def)

theorem ocsp_ttl_policy_witness:
  "31 * hour_us + second_us \<le> 172800000000 - 0 \<and>
   ocsp_ttl (Some 172800000000) 0 = Inr 64800 \<and>
   108000000000 - 0 < 31 * hour_us + second_us \<and>
   isl (ocsp_ttl (Some 108000000000) 0)"
  using ocsp_ttl_policy [of 0 172800000000] ocsp_ttl_policy [of 0 108000000000]
  by (simp add: hour_us_def second_us_def)

section \<open>The paths of the subsystem\<close>

lemma ocsp_store_eq: "ocsp_store e = wd_prefix (work_dir e) @ ''ocsp/ocsp_cache.db''"
  by (simp add: ocsp_store_def path_join3_def path_join_def wd_prefix_def)

lemma ocsp_work_eq: "ocsp_work e = wd_prefix (work_dir e) @ ''ocsp_work/ocsp_cache.db''"
  by (simp add: ocsp_work_def path_join3_def path_join_def wd_prefix_def)

lemma dirname_ocsp_work: "dirname (ocsp_work e) = wd_prefix (work_dir e) @ ''ocsp_work''"
  by (simp add: ocsp_work_eq dirname_def Let_def)

lemma dirname_ocsp_store: "dirname (ocsp_store e) = wd_prefix (work_dir e) @ ''ocsp''"
  by (simp add: ocsp_store_eq dirname_def Let_def)

lemma basename_ocsp_store: "basename (ocsp_store e) = ''ocsp_cache.db''"
  by (simp add: ocsp_store_eq basename_def)

lemma hexdigit_not_slash: "hexdigit n \<noteq> CHR ''/''"
proof -
  have "n mod 16 < length ''0123456789abcdef''" by simp
  then have "hexdigit n \<in> set ''0123456789abcdef''"
    unfolding hexdigit_def by (rule nth_mem)
  then show ?thesis by auto
qed

lemma hexbyte_no_slash: "CHR ''/'' \<notin> set (hexbyte b)"
  using hexdigit_not_slash [of "(b mod 256) div 16"] hexdigit_not_slash [of "b mod 16"]
  by (auto simp: hexbyte_def)

lemma hexdigest_no_slash: "CHR ''/'' \<notin> set (hexdigest bs)"
  by (induction bs) (simp_all add: hexdigest_def hexbyte_no_slash)

lemma tmp_file_eq:
  "path_join (dirname (ocsp_work e)) (''tmp_'' @ basename (ocsp_store e)) =
     wd_prefix (work_dir e) @ ''ocsp_work/tmp_ocsp_cache.db''"
  by (simp add: dirname_ocsp_work basename_ocsp_store path_join_def)

lemma workfile_eq:
  "path_join (dirname (ocsp_work e)) (certid_sha1_hex e c) =
     wd_prefix (work_dir e) @ ''ocsp_work/'' @ certid_sha1_hex e c"
proof (cases "certid_sha1_hex e c")
  case Nil
  then show ?thesis by (simp add: dirname_ocsp_work path_join_def)
next
  case (Cons x xs)
  then have "x \<noteq> CHR ''/''"
    using hexdigest_no_slash [of "certid e c"] by (auto simp: certid_sha1_hex_def)
  with Cons show ?thesis by (simp add: dirname_ocsp_work path_join_def)
qed

lemma store_neq_tmp:
  "ocsp_store e \<noteq> path_join (dirname (ocsp_work e)) (''tmp_'' @ basename (ocsp_store e))"
  unfolding tmp_file_eq by (simp add: ocsp_store_eq)

lemma store_neq_workfile:
  "ocsp_store e \<noteq> path_join (dirname (ocsp_work e)) (certid_sha1_hex e c)"
  unfolding workfile_eq by (simp add: ocsp_store_eq)

lemma store_neq_work: "ocsp_store e \<noteq> ocsp_work e"
  by (simp add: ocsp_work_eq ocsp_store_eq)

section \<open>A failed refresh leaves the active store alone\<close>

lemma files_log [simp]: "files (log l d w) = files w"
  by (simp add: log_def)

lemma files_ensure_dirs: "files (snd (ensure_dirs w paths)) = files w"
proof (induction paths arbitrary: w)
  case Nil
  show ?case by simp
next
  case (Cons p paths)
  show ?case
  proof (cases "isdir w p")
    case True
    with Cons [of w] show ?thesis by simp
  next
    case False
    show ?thesis
    proof (cases "files w p")
      case None
      with False Cons [of "w\<lparr>dirs := dirs w @ [p]\<rparr>"] show ?thesis
        by (simp add: makedirs_def)
    next
      case (Some a)
      with False show ?thesis by (simp add: makedirs_def)
    qed
  qed
qed

lemma files_ensure_ocsp_dirs [simp]: "files (snd (ensure_ocsp_dirs e w)) = files w"
  unfolding ensure_ocsp_dirs_def by (rule files_ensure_dirs)

lemma ensure_dirs_error_class:
  "fst (ensure_dirs w paths) = Some err \<Longrightarrow> exc_cls err = OSError"
proof (induction paths arbitrary: w)
  case Nil
  then show ?case by simp
next
  case (Cons p paths)
  show ?case
  proof (cases "isdir w p")
    case True
    with Cons.prems Cons.IH [of w] show ?thesis by simp
  next
    case False
    show ?thesis
    proof (cases "files w p")
      case None
      with False Cons.prems Cons.IH [of "w\<lparr>dirs := dirs w @ [p]\<rparr>"] show ?thesis
        by (simp add: makedirs_def)
    next
      case (Some a)
      with False Cons.prems show ?thesis by (auto simp: makedirs_def)
    qed
  qed
qed

lemma ensure_ocsp_dirs_error_class:
  "fst (ensure_ocsp_dirs e w) = Some err \<Longrightarrow> exc_cls err = OSError"
  unfolding ensure_ocsp_dirs_def by (rule ensure_dirs_error_class)

lemma strip_db_suffix:
  "endswith (p @ ''.db'') ''.db'' \<and> take (length (p @ ''.db'') - 3) (p @ ''.db'') = p"
  by (simp add: endswith_def)

lemma DBMHandler_enter_opened:
  assumes "DBMHandler_enter e w (p @ ''.db'') = Inr (opened, db)"
  shows "opened = p @ ''.db''"
  using assms strip_db_suffix [of p]
  by (auto simp: DBMHandler_enter_def Let_def split: if_splits option.splits fdata.splits)

lemma tmp_file_db:
  "path_join (dirname (ocsp_work e)) (''tmp_'' @ basename (ocsp_store e)) =
     (wd_prefix (work_dir e) @ ''ocsp_work/tmp_ocsp_cache'') @ ''.db''"
  using tmp_file_eq [of e] by simp

lemma write_to_dbm_failure_store:
  assumes "write_to_dbm e w (ocsp_store e) k v = (Some err, w')"
  shows "files w' (ocsp_store e) = files w (ocsp_store e)"
proof -
  let ?tmp = "path_join (dirname (ocsp_work e)) (''tmp_'' @ basename (ocsp_store e))"
  have neq: "ocsp_store e \<noteq> ?tmp" by (rule store_neq_tmp)
  show ?thesis
  proof (cases "safe_copy w (ocsp_store e) ?tmp")
    case (Inl a)
    with assms show ?thesis by (simp add: write_to_dbm_def Let_def)
  next
    case (Inr w1)
    then have w1: "files w1 (ocsp_store e) = files w (ocsp_store e)"
      using neq by (auto simp: safe_copy_def split: option.splits)
    show ?thesis
    proof (cases "DBMHandler_enter e w1 ?tmp")
      case (Inl a)
      with assms Inr w1 show ?thesis by (simp add: write_to_dbm_def Let_def)
    next
      case r: (Inr od)
      obtain opened db where od: "od = (opened, db)" by (cases od)
      have "opened = ?tmp"
        using r od tmp_file_db [of e]
          DBMHandler_enter_opened [of e w1 "wd_prefix (work_dir e) @ ''ocsp_work/tmp_ocsp_cache''" opened db]
        by simp
      then show ?thesis
        using assms Inr r od
        by (auto simp: write_to_dbm_def Let_def filesystem_replace_def split: option.splits)
    qed
  qed
qed


lemma ocsp_refresh_try_failure_store:
  assumes "ocsp_refresh_try e w c ch sfile = (Some err, w')" and "ocsp_store e \<noteq> sfile"
  shows "files w' (ocsp_store e) = files w (ocsp_store e)"
proof (cases "ocsp_revoked_by_paths e c ch")
  case (Check written outcome)
  define w1 where "w1 = (case written of None \<Rightarrow> w
      | Some bytes \<Rightarrow> w\<lparr>files := (files w)(sfile \<mapsto> Raw bytes)\<rparr>)"
  have w1: "files w1 (ocsp_store e) = files w (ocsp_store e)"
    using assms(2) by (simp add: w1_def split: option.splits)
  show ?thesis
  proof (cases outcome)
    case (Inl a)
    with assms(1) Check w1 show ?thesis
      by (simp add: ocsp_refresh_try_def w1_def)
  next
    case (Inr revoked)
    show ?thesis
    proof (cases revoked)
      case True
      with assms(1) Check Inr w1 show ?thesis
        by (auto simp: ocsp_refresh_try_def w1_def)
    next
      case False
      show ?thesis
      proof (cases "ocsp_response_dbm e w1 sfile")
        case (Inl a)
        with assms(1) Check Inr False w1 show ?thesis
          by (auto simp: ocsp_refresh_try_def w1_def Let_def)
      next
        case r: (Inr val)
        with assms(1) Check Inr False
        have "write_to_dbm e w1 (ocsp_store e) (certid_sha1 e c) val = (Some err, w')"
          by (simp add: ocsp_refresh_try_def w1_def Let_def)
        from write_to_dbm_failure_store [OF this] w1 show ?thesis by simp
      qed
    qed
  qed
qed

lemma os_remove_other:
  "os_remove w p = Inr w' \<Longrightarrow> q \<noteq> p \<Longrightarrow> files w' q = files w q"
  by (auto simp: os_remove_def split: option.splits)

text \<open>
  C1. Whenever \<^verbatim>\<open>_ocsp_refresh\<close> fails, for whatever reason (certificate file
  missing, certificate revoked, an error of the checker, of the times, of the TTL, of the
  copy or of the database), the active store file holds after the call what it held before:
  the rename over the active path is the last step and happens only when all before it
  succeeded.
\<close>

theorem ocsp_refresh_failure_keeps_store:
  assumes "ocsp_refresh e w cert_path chainp = (Some err, w')"
  shows "files w' (ocsp_store e) = files w (ocsp_store e)"
proof -
  obtain d w0 where d: "ensure_ocsp_dirs e w = (d, w0)" by (cases "ensure_ocsp_dirs e w")
  have f0: "files w0 = files w" using files_ensure_ocsp_dirs [of e w] d by simp
  show ?thesis
  proof (cases d)
    case (Some a)
    with assms d f0 show ?thesis by (simp add: ocsp_refresh_def)
  next
    case None
    show ?thesis
    proof (cases "isfile w0 cert_path")
      case False
      with assms d None f0 show ?thesis by (auto simp: ocsp_refresh_def Let_def)
    next
      case True
      let ?sfile = "path_join (dirname (ocsp_work e)) (certid_sha1_hex e cert_path)"
      have neq: "ocsp_store e \<noteq> ?sfile" by (rule store_neq_workfile)
      obtain r w2 where t: "ocsp_refresh_try e w0 cert_path chainp ?sfile = (r, w2)"
        by (cases "ocsp_refresh_try e w0 cert_path chainp ?sfile")
      from assms d None True t have r: "r = Some err"
        by (auto simp: ocsp_refresh_def Let_def split: sum.splits)
      from ocsp_refresh_try_failure_store [OF t [unfolded r] neq] f0
      have w2: "files w2 (ocsp_store e) = files w (ocsp_store e)" by simp
      show ?thesis
      proof (cases "os_remove w2 ?sfile")
        case (Inl a)
        with assms d None True t w2 show ?thesis by (auto simp: ocsp_refresh_def Let_def)
      next
        case (Inr w3)
        from os_remove_other [OF Inr neq] w2 assms d None True t Inr show ?thesis
          by (auto simp: ocsp_refresh_def Let_def)
      qed
    qed
  qed
qed

lemma ocsp_refresh_fst:
  "fst (ocsp_refresh e w c ch) =
     (case fst (ensure_ocsp_dirs e w) of
        Some err \<Rightarrow> Some err
      | None \<Rightarrow>
          if \<not> isfile w c
          then Some (Exc OCSPCertificateError (Text ''Certificate has been removed from the system.''))
          else fst (ocsp_refresh_try e (snd (ensure_ocsp_dirs e w)) c ch
                  (path_join (dirname (ocsp_work e)) (certid_sha1_hex e c))))"
proof -
  obtain d w0 where d: "ensure_ocsp_dirs e w = (d, w0)" by (cases "ensure_ocsp_dirs e w")
  have "files w0 = files w" using files_ensure_ocsp_dirs [of e w] d by simp
  with d show ?thesis
    by (auto simp: ocsp_refresh_def Let_def isfile_def split: prod.splits sum.splits option.splits)
qed

lemma ocsp_refresh_try_revoked:
  "reported_revoked e c ch \<Longrightarrow>
   fst (ocsp_refresh_try e w c ch sfile) =
     Some (Exc OCSPCertificateError (Text ''Certificate has been revoked.''))"
  by (auto simp: reported_revoked_def ocsp_refresh_try_def Let_def
      split: check_result.splits sum.splits)

lemma ex_store: "ocsp_store ex_env = ''/w/ocsp/ocsp_cache.db''"
  by (simp add: ocsp_store_eq wd_prefix_def ex_env_def)

lemma ex_work: "ocsp_work ex_env = ''/w/ocsp_work/ocsp_cache.db''"
  by (simp add: ocsp_work_eq wd_prefix_def ex_env_def)

lemma ex_work_dir: "dirname (ocsp_work ex_env) = ''/w/ocsp_work''"
  by (simp add: dirname_ocsp_work wd_prefix_def ex_env_def)

lemma ex_store_dir: "dirname (ocsp_store ex_env) = ''/w/ocsp''"
  by (simp add: dirname_ocsp_store wd_prefix_def ex_env_def)

lemma ex_tmp:
  "path_join (dirname (ocsp_work ex_env)) (''tmp_'' @ basename (ocsp_store ex_env)) =
     ''/w/ocsp_work/tmp_ocsp_cache.db''"
  using tmp_file_eq [of ex_env] by (simp add: wd_prefix_def ex_env_def)

lemmas ex_paths = ex_work_dir ex_store_dir ex_store ex_work

lemma ex_dirs: "fst (ensure_ocsp_dirs ex_env ex_world) = None"
  unfolding ensure_ocsp_dirs_def ex_work_dir ex_store_dir
  by (simp add: isdir_def makedirs_def ex_world_def)

lemma ex_refresh_revoked:
  "fst (ocsp_refresh ex_env ex_world ''/revoked.pem'' ''/chain.pem'') =
     Some (Exc OCSPCertificateError (Text ''Certificate has been revoked.''))"
proof -
  have "isfile ex_world ''/revoked.pem''" by (simp add: isfile_def ex_world_def)
  moreover have "reported_revoked ex_env ''/revoked.pem'' ''/chain.pem''"
    by (simp add: reported_revoked_def ex_env_def)
  ultimately show ?thesis
    using ex_dirs by (simp add: ocsp_refresh_fst ocsp_refresh_try_revoked)
qed

theorem ocsp_refresh_failure_keeps_store_witness:
  "fst (ocsp_refresh ex_env ex_world ''/revoked.pem'' ''/chain.pem'') =
     Some (Exc OCSPCertificateError (Text ''Certificate has been revoked.'')) \<and>
   files (snd (ocsp_refresh ex_env ex_world ''/revoked.pem'' ''/chain.pem''))
     (ocsp_store ex_env) = Some (Dbm [])"
proof -
  have r: "ocsp_refresh ex_env ex_world ''/revoked.pem'' ''/chain.pem'' =
      (Some (Exc OCSPCertificateError (Text ''Certificate has been revoked.'')),
       snd (ocsp_refresh ex_env ex_world ''/revoked.pem'' ''/chain.pem''))"
    using ex_refresh_revoked by (metis prod.collapse)
  have "files ex_world (ocsp_store ex_env) = Some (Dbm [])"
    by (simp add: ex_paths ex_world_def)
  with ocsp_refresh_failure_keeps_store [OF r] ex_refresh_revoked show ?thesis by simp
qed

section \<open>The class of a refresh failure\<close>

lemma write_to_dbm_error_class:
  assumes "write_to_dbm e w f k v = (Some err, w')"
  shows "exc_cls err = PluginError \<or> exc_cls err = OSError"
  using assms
  by (auto simp: write_to_dbm_def Let_def safe_copy_def DBMHandler_enter_def
      filesystem_replace_def split: sum.splits option.splits if_splits fdata.splits prod.splits)

lemma ocsp_ttl_error_class: "ocsp_ttl nu now = Inl err \<Longrightarrow> exc_cls err = PluginError"
  by (auto simp: ocsp_ttl_def Let_def split: option.splits if_splits)

lemma ocsp_response_dbm_error_class:
  assumes "ocsp_response_dbm e w sfile = Inl err"
    and "\<forall>f err. ocsp_times e f = Inl err \<longrightarrow> \<not> is_OCSPCertificateError (exc_cls err)"
  shows "\<not> is_OCSPCertificateError (exc_cls err)"
  using assms
  by (auto simp: ocsp_response_dbm_def split: sum.splits option.splits
      dest!: ocsp_ttl_error_class)

lemma ocsp_refresh_try_not_revoked:
  assumes "\<not> reported_revoked e c ch" and "checker_raises_no_eviction e c ch"
    and "fst (ocsp_refresh_try e w c ch sfile) = Some err"
  shows "\<not> is_OCSPCertificateError (exc_cls err)"
proof (cases "ocsp_revoked_by_paths e c ch")
  case (Check written outcome)
  show ?thesis
  proof (cases outcome)
    case (Inl a)
    with assms Check show ?thesis
      by (auto simp: ocsp_refresh_try_def checker_raises_no_eviction_def)
  next
    case (Inr revoked)
    with assms(1) Check have nr: "\<not> revoked" by (simp add: reported_revoked_def)
    define w1 where "w1 = (case written of None \<Rightarrow> w
      | Some bytes \<Rightarrow> w\<lparr>files := (files w)(sfile \<mapsto> Raw bytes)\<rparr>)"
    show ?thesis
    proof (cases "ocsp_response_dbm e w1 sfile")
      case (Inl a)
      with assms Check Inr nr have "a = err"
        by (simp add: ocsp_refresh_try_def w1_def Let_def)
      with Inl assms(2) show ?thesis
        using ocsp_response_dbm_error_class [of e w1 sfile err]
        by (simp add: checker_raises_no_eviction_def)
    next
      case r: (Inr val)
      with assms Check Inr nr
      have "fst (write_to_dbm e w1 (ocsp_store e) (certid_sha1 e c) val) = Some err"
        by (simp add: ocsp_refresh_try_def w1_def Let_def)
      then have "write_to_dbm e w1 (ocsp_store e) (certid_sha1 e c) val =
          (Some err, snd (write_to_dbm e w1 (ocsp_store e) (certid_sha1 e c) val))"
        by (metis prod.collapse)
      from write_to_dbm_error_class [OF this] show ?thesis by auto
    qed
  qed
qed

text \<open>
  C8, as the claim states it, fails where the OCSP directories cannot be created: with a
  regular file at the path of the work directory and the certificate file missing,
  \<^verbatim>\<open>_ocsp_refresh\<close> raises the \<^verbatim>\<open>OSError\<close> of \<^verbatim>\<open>filesystem.makedirs\<close>,
  which is not of the eviction class, since \<^verbatim>\<open>_ensure_ocsp_dirs\<close> runs before the
  certificate file is looked at.
\<close>

theorem ocsp_refresh_missing_cert_blocked_dirs:
  "\<not> isfile ex_world_blocked ''/gone.pem'' \<and>
   fst (ocsp_refresh ex_env ex_world_blocked ''/gone.pem'' ''/chain.pem'') =
     Some (Exc OSError (Text ''File exists'')) \<and>
   \<not> is_OCSPCertificateError (exc_cls (Exc OSError (Text ''File exists'')))"
  unfolding ocsp_refresh_fst ensure_ocsp_dirs_def ex_work_dir ex_store_dir
  by (simp add: isdir_def makedirs_def isfile_def ex_world_blocked_def ex_world_def)

text \<open>
  C8, amended. Where the checker raises no error of the eviction class itself: when the OCSP
  directories cannot be created, \<^verbatim>\<open>_ocsp_refresh\<close> raises the \<^verbatim>\<open>OSError\<close> of
  that; when they exist or can be created, it raises "certificate removed" if the certificate
  file does not exist and "certificate revoked" if the file exists and the checker reports it
  revoked, both of the eviction class; and whenever it fails, the error is of the eviction
  class exactly when the directories were there and the file does not exist or the checker
  reported the certificate revoked.
\<close>

theorem ocsp_refresh_eviction_class:
  assumes "checker_raises_no_eviction e cert_path chainp"
  shows "(\<forall>err. fst (ensure_ocsp_dirs e w) = Some err \<longrightarrow>
            fst (ocsp_refresh e w cert_path chainp) = Some err \<and> exc_cls err = OSError) \<and>
         (fst (ensure_ocsp_dirs e w) = None \<and> \<not> isfile w cert_path \<longrightarrow>
            fst (ocsp_refresh e w cert_path chainp) =
              Some (Exc OCSPCertificateError (Text ''Certificate has been removed from the system.''))) \<and>
         (fst (ensure_ocsp_dirs e w) = None \<and> isfile w cert_path \<and>
          reported_revoked e cert_path chainp \<longrightarrow>
            fst (ocsp_refresh e w cert_path chainp) =
              Some (Exc OCSPCertificateError (Text ''Certificate has been revoked.''))) \<and>
         (\<forall>err. fst (ocsp_refresh e w cert_path chainp) = Some err \<longrightarrow>
            (is_OCSPCertificateError (exc_cls err) \<longleftrightarrow>
               fst (ensure_ocsp_dirs e w) = None \<and>
               (\<not> isfile w cert_path \<or> reported_revoked e cert_path chainp)))"
proof (intro conjI impI allI)
  fix err
  assume "fst (ensure_ocsp_dirs e w) = Some err"
  then show "fst (ocsp_refresh e w cert_path chainp) = Some err" "exc_cls err = OSError"
    by (simp_all add: ocsp_refresh_fst ensure_ocsp_dirs_error_class)
next
  assume "fst (ensure_ocsp_dirs e w) = None \<and> \<not> isfile w cert_path"
  then show "fst (ocsp_refresh e w cert_path chainp) =
      Some (Exc OCSPCertificateError (Text ''Certificate has been removed from the system.''))"
    by (simp add: ocsp_refresh_fst)
next
  assume "fst (ensure_ocsp_dirs e w) = None \<and> isfile w cert_path \<and>
      reported_revoked e cert_path chainp"
  then show "fst (ocsp_refresh e w cert_path chainp) =
      Some (Exc OCSPCertificateError (Text ''Certificate has been revoked.''))"
    by (simp add: ocsp_refresh_fst ocsp_refresh_try_revoked)
next
  fix err
  assume f: "fst (ocsp_refresh e w cert_path chainp) = Some err"
  show "is_OCSPCertificateError (exc_cls err) \<longleftrightarrow>
      fst (ensure_ocsp_dirs e w) = None \<and>
      (\<not> isfile w cert_path \<or> reported_revoked e cert_path chainp)"
  proof (cases "fst (ensure_ocsp_dirs e w)")
    case (Some a)
    with f have "a = err" by (simp add: ocsp_refresh_fst)
    with Some ensure_ocsp_dirs_error_class [of e w err] show ?thesis by simp
  next
    case None
    show ?thesis
    proof (cases "isfile w cert_path")
      case False
      with f None show ?thesis by (auto simp: ocsp_refresh_fst)
    next
      case True
      show ?thesis
      proof (cases "reported_revoked e cert_path chainp")
        case r: True
        with True f None show ?thesis by (auto simp: ocsp_refresh_fst ocsp_refresh_try_revoked)
      next
        case r: False
        from True f None
        have "fst (ocsp_refresh_try e (snd (ensure_ocsp_dirs e w)) cert_path chainp
            (path_join (dirname (ocsp_work e)) (certid_sha1_hex e cert_path))) = Some err"
          by (simp add: ocsp_refresh_fst)
        from ocsp_refresh_try_not_revoked [OF r assms this] True r show ?thesis by simp
      qed
    qed
  qed
qed

lemma ex_checker_raises_no_eviction: "checker_raises_no_eviction ex_env c ch"
  by (simp add: checker_raises_no_eviction_def ex_env_def)

theorem ocsp_refresh_eviction_class_witness:
  "checker_raises_no_eviction ex_env ''/gone.pem'' ''/chain.pem'' \<and>
   fst (ensure_ocsp_dirs ex_env ex_world) = None \<and>
   \<not> isfile ex_world ''/gone.pem'' \<and>
   fst (ocsp_refresh ex_env ex_world ''/gone.pem'' ''/chain.pem'') =
     Some (Exc OCSPCertificateError (Text ''Certificate has been removed from the system.'')) \<and>
   checker_raises_no_eviction ex_env ''/revoked.pem'' ''/chain.pem'' \<and>
   isfile ex_world ''/revoked.pem'' \<and>
   reported_revoked ex_env ''/revoked.pem'' ''/chain.pem'' \<and>
   fst (ocsp_refresh ex_env ex_world ''/revoked.pem'' ''/chain.pem'') =
     Some (Exc OCSPCertificateError (Text ''Certificate has been revoked.'')) \<and>
   fst (ensure_ocsp_dirs ex_env ex_world_blocked) = Some (Exc OSError (Text ''File exists'')) \<and>
   fst (ocsp_refresh ex_env ex_world_blocked ''/revoked.pem'' ''/chain.pem'') =
     Some (Exc OSError (Text ''File exists''))"
proof -
  have g: "\<not> isfile ex_world ''/gone.pem''"
    by (simp add: isfile_def ex_world_def)
  have r: "isfile ex_world ''/revoked.pem''" "reported_revoked ex_env ''/revoked.pem'' ''/chain.pem''"
    by (simp_all add: isfile_def ex_world_def reported_revoked_def ex_env_def)
  have b: "fst (ensure_ocsp_dirs ex_env ex_world_blocked) = Some (Exc OSError (Text ''File exists''))"
    unfolding ensure_ocsp_dirs_def ex_work_dir ex_store_dir
    by (simp add: isdir_def makedirs_def ex_world_blocked_def ex_world_def)
  show ?thesis
    using g r b ex_dirs ex_checker_raises_no_eviction
      ocsp_refresh_eviction_class [of ex_env "''/gone.pem''" "''/chain.pem''" ex_world]
      ocsp_refresh_eviction_class [of ex_env "''/revoked.pem''" "''/chain.pem''" ex_world]
      ocsp_refresh_eviction_class [of ex_env "''/revoked.pem''" "''/chain.pem''" ex_world_blocked]
    by blast
qed

section \<open>Eviction is put but not saved\<close>

lemma storage_saved_ocsp_prefetch_save:
  "storage_saved (ocsp_prefetch_save w c ch) = Some (ocsp_prefetch (ocsp_prefetch_save w c ch))"
  by (simp add: ocsp_prefetch_save_def Let_def storage_save_def storage_put_def)

lemma ocsp_prefetch_ocsp_prefetch_save:
  "ocsp_prefetch (ocsp_prefetch_save w c ch) =
     AList.update c \<lparr>lastupdate = time_time w, chain_path = ch\<rparr> (ocsp_prefetch w)"
  by (simp add: ocsp_prefetch_save_def Let_def storage_save_def storage_put_def)

text \<open>
  C9. For a tracked certificate, \<^verbatim>\<open>_ocsp_prefetch_remove\<close> removes the entry from the
  in-memory map and puts the map into the storage, and what the storage last saved stays as
  it was: the removal is flushed only by a later \<^verbatim>\<open>save()\<close>, for instance the one in
  \<^verbatim>\<open>_ocsp_prefetch_save\<close> for another certificate.
\<close>

theorem ocsp_prefetch_remove_not_saved:
  assumes "map_of (ocsp_prefetch w) cert_path = Some v"
  shows "\<exists>w'. ocsp_prefetch_remove w cert_path = Inr w' \<and>
           ocsp_prefetch w' = AList.delete cert_path (ocsp_prefetch w) \<and>
           map_of (ocsp_prefetch w') cert_path = None \<and>
           storage_data w' = Some (ocsp_prefetch w') \<and>
           storage_saved w' = storage_saved w \<and>
           storage_saved (storage_save w') = Some (ocsp_prefetch w') \<and>
           (\<forall>c ch. c \<noteq> cert_path \<longrightarrow>
              (\<exists>saved. storage_saved (ocsp_prefetch_save w' c ch) = Some saved \<and>
                       map_of saved cert_path = None))"
  using assms
  by (simp add: ocsp_prefetch_remove_def Let_def storage_put_def storage_save_def
      storage_saved_ocsp_prefetch_save ocsp_prefetch_ocsp_prefetch_save
      AList.delete_conv AList.update_conv')

theorem ocsp_prefetch_remove_not_saved_witness:
  "map_of (ocsp_prefetch ex_world_tracked) ''/revoked.pem'' = Some ex_old \<and>
   \<not> isl (ocsp_prefetch_remove ex_world_tracked ''/revoked.pem'') \<and>
   ocsp_prefetch (projr (ocsp_prefetch_remove ex_world_tracked ''/revoked.pem'')) =
     [(''/good.pem'', ex_old), (''/transient.pem'', ex_old)] \<and>
   storage_data (projr (ocsp_prefetch_remove ex_world_tracked ''/revoked.pem'')) =
     Some [(''/good.pem'', ex_old), (''/transient.pem'', ex_old)] \<and>
   storage_saved (projr (ocsp_prefetch_remove ex_world_tracked ''/revoked.pem'')) =
     Some ex_tracked"
proof -
  have h: "map_of (ocsp_prefetch ex_world_tracked) ''/revoked.pem'' = Some ex_old"
    by (simp add: ex_world_tracked_def ex_tracked_def)
  have d: "AList.delete ''/revoked.pem'' (ocsp_prefetch ex_world_tracked) =
      [(''/good.pem'', ex_old), (''/transient.pem'', ex_old)]"
    by (simp add: ex_world_tracked_def ex_tracked_def AList.delete_eq)
  have s: "storage_saved ex_world_tracked = Some ex_tracked"
    by (simp add: ex_world_tracked_def)
  from ocsp_prefetch_remove_not_saved [OF h] obtain w' where
    "ocsp_prefetch_remove ex_world_tracked ''/revoked.pem'' = Inr w'"
    "ocsp_prefetch w' = AList.delete ''/revoked.pem'' (ocsp_prefetch ex_world_tracked)"
    "storage_data w' = Some (ocsp_prefetch w')"
    "storage_saved w' = storage_saved ex_world_tracked"
    by blast
  with h d s show ?thesis by simp
qed

section \<open>What a refresh leaves alone\<close>

lemma same_but_files_refl [simp]: "same_but_files w w"
  by (simp add: same_but_files_def)

lemma same_but_files_trans:
  "same_but_files w w1 \<Longrightarrow> same_but_files w1 w2 \<Longrightarrow> same_but_files w w2"
  by (simp add: same_but_files_def)

lemma same_but_files_updates [simp]:
  "same_but_files w (w\<lparr>files := fs\<rparr>)"
  "same_but_files w (w\<lparr>dirs := ds\<rparr>)"
  "same_but_files w (log l d w)"
  by (simp_all add: same_but_files_def log_def)

lemma same_but_files_ensure_dirs: "same_but_files w (snd (ensure_dirs w paths))"
proof (induction paths arbitrary: w)
  case Nil
  show ?case by simp
next
  case (Cons p paths)
  show ?case
  proof (cases "isdir w p")
    case True
    with Cons [of w] show ?thesis by simp
  next
    case False
    show ?thesis
    proof (cases "files w p")
      case None
      have "same_but_files w (w\<lparr>dirs := dirs w @ [p]\<rparr>)" by simp
      from same_but_files_trans [OF this Cons [of "w\<lparr>dirs := dirs w @ [p]\<rparr>"]] False None
      show ?thesis by (simp add: makedirs_def)
    next
      case (Some a)
      with False show ?thesis by (simp add: makedirs_def)
    qed
  qed
qed

lemma same_but_files_ensure_ocsp_dirs [simp]: "same_but_files w (snd (ensure_ocsp_dirs e w))"
  unfolding ensure_ocsp_dirs_def by (rule same_but_files_ensure_dirs)

lemma same_but_files_safe_copy: "safe_copy w s t = Inr w' \<Longrightarrow> same_but_files w w'"
  by (auto simp: safe_copy_def split: option.splits)

lemma same_but_files_replace: "filesystem_replace w s t = Inr w' \<Longrightarrow> same_but_files w w'"
  by (auto simp: filesystem_replace_def split: option.splits)

lemma same_but_files_remove: "os_remove w p = Inr w' \<Longrightarrow> same_but_files w w'"
  by (auto simp: os_remove_def split: option.splits)

lemma same_but_files_write_to_dbm: "same_but_files w (snd (write_to_dbm e w f k v))"
  by (auto simp: write_to_dbm_def Let_def same_but_files_def safe_copy_def
      filesystem_replace_def split: sum.splits option.splits prod.splits)

lemma same_but_files_refresh_try: "same_but_files w (snd (ocsp_refresh_try e w c ch sfile))"
proof (cases "ocsp_revoked_by_paths e c ch")
  case (Check written outcome)
  define w1 where "w1 = (case written of None \<Rightarrow> w
      | Some bytes \<Rightarrow> w\<lparr>files := (files w)(sfile \<mapsto> Raw bytes)\<rparr>)"
  have w1: "same_but_files w w1" by (simp add: w1_def split: option.splits)
  have "same_but_files w1 (snd (ocsp_refresh_try e w c ch sfile))"
    using Check same_but_files_write_to_dbm [of w1 e]
    by (auto simp: ocsp_refresh_try_def Let_def w1_def [symmetric] split: sum.splits)
  with w1 show ?thesis by (rule same_but_files_trans)
qed

lemma same_but_files_refresh: "same_but_files w (snd (ocsp_refresh e w c ch))"
proof -
  obtain d w0 where d: "ensure_ocsp_dirs e w = (d, w0)" by (cases "ensure_ocsp_dirs e w")
  let ?sf = "path_join (dirname (ocsp_work e)) (certid_sha1_hex e c)"
  have a: "same_but_files w w0" using same_but_files_ensure_ocsp_dirs [of w e] d by simp
  show ?thesis
  proof (cases d)
    case (Some err)
    with a d show ?thesis by (simp add: ocsp_refresh_def)
  next
    case None
    show ?thesis
    proof (cases "isfile w0 c")
      case False
      with a d None show ?thesis by (simp add: ocsp_refresh_def)
    next
      case True
      obtain r w2 where t: "ocsp_refresh_try e w0 c ch ?sf = (r, w2)"
        by (cases "ocsp_refresh_try e w0 c ch ?sf")
      have "same_but_files w0 w2" using same_but_files_refresh_try [of w0 e c ch ?sf] t by simp
      with a have b: "same_but_files w w2" by (rule same_but_files_trans)
      show ?thesis
      proof (cases "os_remove w2 ?sf")
        case (Inl x)
        with b d None True t show ?thesis by (simp add: ocsp_refresh_def Let_def)
      next
        case (Inr w3)
        from same_but_files_trans [OF b same_but_files_remove [OF Inr]] d None True t Inr
        show ?thesis by (simp add: ocsp_refresh_def Let_def)
      qed
    qed
  qed
qed

end
